theory Spec2Isabelle
  imports Complex_Main
begin

section \<open>Python values and exceptions\<close>

text \<open>
  The exceptions that the modelled code raises or lets through. \<open>KeyError\<close> carries the
  missing key, \<open>IndexError\<close> the replacement index of a positional field, the others
  their message. \<open>TypeError\<close> is raised by an operation on \<open>None\<close> (\<open>None * 30\<close>,
  \<open>None <= 0\<close>) and by a keyword argument that collides with a parameter,
  \<open>OverflowError\<close> by \<open>int\<close> of an infinite float; \<open>LibraryError\<close> stands for anything
  raised inside Pillow, OpenCV or the operating system.
\<close>

datatype error =
    KeyError string
  | IndexError int
  | ValueError string
  | TypeError string
  | OverflowError string
  | LibraryError string

text \<open>A word between single quotes, as Python's messages show names.\<close>

definition quoted :: "string \<Rightarrow> string" where
  "quoted s = CHR 0x27 # s @ [CHR 0x27]"

text \<open>
  The values a \<open>Dict[str, Any]\<close> of generation parameters holds. A float is given by
  its real value: the code only stores, copies and compares these.
\<close>

datatype pyval =
    PNone
  | PBool bool
  | PInt int
  | PFloat real
  | PStr string
  | PList "pyval list"
  | PDict "(string \<times> pyval) list"

type_synonym pydict = "(string \<times> pyval) list"

text \<open>
  A Python \<open>dict\<close> keeps insertion order: assigning to a key that is present replaces
  the value in place, a new key goes to the end.
\<close>

fun dict_set :: "(string \<times> 'v) list \<Rightarrow> string \<Rightarrow> 'v \<Rightarrow> (string \<times> 'v) list" where
  "dict_set [] k v = [(k, v)]"
| "dict_set ((k', v') # d) k v =
     (if k' = k then (k, v) # d else (k', v') # dict_set d k v)"

definition dict_get :: "(string \<times> 'v) list \<Rightarrow> string \<Rightarrow> 'v option" where
  "dict_get d k = map_of d k"

definition dict_contains :: "(string \<times> 'v) list \<Rightarrow> string \<Rightarrow> bool" where
  "dict_contains d k = (map_of d k \<noteq> None)"

definition dict_del :: "(string \<times> 'v) list \<Rightarrow> string \<Rightarrow> (string \<times> 'v) list" where
  "dict_del d k = filter (\<lambda>kv. fst kv \<noteq> k) d"

text \<open>\<open>d.update(other)\<close>: the entries of \<open>other\<close> are assigned one by one, in order.\<close>

definition dict_update :: "(string \<times> 'v) list \<Rightarrow> (string \<times> 'v) list \<Rightarrow> (string \<times> 'v) list" where
  "dict_update d other = foldl (\<lambda>acc kv. dict_set acc (fst kv) (snd kv)) d other"

section \<open>Template entity\<close>

text \<open>
  \<open>class Template\<close> of \<open>templates/template_manager.py\<close>. The fields hold what the
  constructor stores: the three required arguments as given, the four optional ones
  after \<open>x or default\<close>.
\<close>

record Template =
  name :: string
  description :: string
  prompt :: string
  negative_prompt :: string
  style :: string
  parameters :: pydict
  tags :: "string list"

text \<open>
  \<open>x or d\<close> on an \<open>Optional[str]\<close>, \<open>Optional[Dict]\<close> or \<open>Optional[List]\<close>: the
  default replaces \<open>None\<close> and every falsy value, that is the empty string, the empty
  dict and the empty list.
\<close>

definition or_default :: "'a list option \<Rightarrow> 'a list \<Rightarrow> 'a list" where
  "or_default x d = (case x of None \<Rightarrow> d | Some v \<Rightarrow> if v = [] then d else v)"

definition Template_init ::
  "string \<Rightarrow> string \<Rightarrow> string \<Rightarrow> string option \<Rightarrow> string option \<Rightarrow>
   pydict option \<Rightarrow> string list option \<Rightarrow> Template" where
  "Template_init nm descr prm neg sty params tgs =
     \<lparr> name = nm,
       description = descr,
       prompt = prm,
       negative_prompt = or_default neg '''',
       style = or_default sty ''general'',
       parameters = or_default params [],
       tags = or_default tgs [] \<rparr>"

text \<open>
  The record \<open>to_dict\<close> builds and \<open>from_dict\<close> reads, seen through the seven keys the
  two functions use. A key is absent (\<open>None\<close>) or present; a present optional key holds
  JSON \<open>null\<close> (\<open>Some None\<close>) or a value of the annotated type.
\<close>

record template_record =
  r_name :: "string option"
  r_description :: "string option"
  r_prompt :: "string option"
  r_negative_prompt :: "string option option"
  r_style :: "string option option"
  r_parameters :: "pydict option option"
  r_tags :: "string list option option"

definition to_dict :: "Template \<Rightarrow> template_record" where
  "to_dict t =
     \<lparr> r_name = Some (name t),
       r_description = Some (description t),
       r_prompt = Some (prompt t),
       r_negative_prompt = Some (Some (negative_prompt t)),
       r_style = Some (Some (style t)),
       r_parameters = Some (Some (parameters t)),
       r_tags = Some (Some (tags t)) \<rparr>"

text \<open>\<open>data.get(key)\<close>: \<open>None\<close> for an absent key and for a key holding \<open>null\<close>.\<close>

definition data_get :: "'a option option \<Rightarrow> 'a option" where
  "data_get e = (case e of None \<Rightarrow> None | Some v \<Rightarrow> v)"

text \<open>
  \<open>data["name"]\<close>, \<open>data["description"]\<close>, \<open>data["prompt"]\<close> are evaluated in this
  order; the first absent key raises \<open>KeyError\<close>.
\<close>

definition from_dict :: "template_record \<Rightarrow> error + Template" where
  "from_dict data =
     (case r_name data of
        None \<Rightarrow> Inl (KeyError ''name'')
      | Some nm \<Rightarrow>
         (case r_description data of
            None \<Rightarrow> Inl (KeyError ''description'')
          | Some descr \<Rightarrow>
             (case r_prompt data of
                None \<Rightarrow> Inl (KeyError ''prompt'')
              | Some prm \<Rightarrow>
                 Inr (Template_init nm descr prm
                        (data_get (r_negative_prompt data))
                        (data_get (r_style data))
                        (data_get (r_parameters data))
                        (data_get (r_tags data))))))"

section \<open>Prompt formatting\<close>

text \<open>
  \<open>Template.format_prompt\<close> calls \<open>str.format(**kwargs)\<close> on the prompt. The model
  of \<open>str.format\<close> follows the formatter of CPython (\<open>MarkupIterator_next\<close>,
  \<open>parse_field\<close>, \<open>get_field_object\<close>): literal text with the escapes \<open>{{\<close> and
  \<open>}}\<close>, replacement fields, the errors for stray braces, and the lookup of a field's
  first name among the keyword arguments. No positional argument is ever passed, so a
  field with an empty or numeric name raises \<open>IndexError\<close>. The keyword arguments are
  strings, which format as themselves. How a looked-up value is rendered under an
  attribute or index accessor, a conversion or a format specification is not modelled:
  it is the parameter \<open>ext\<close> of type \<open>field_ext\<close>.
\<close>

type_synonym kwargs = "string \<rightharpoonup> string"

definition is_brace :: "char \<Rightarrow> bool" where
  "is_brace c = (c = CHR ''{'' \<or> c = CHR ''}'')"

datatype field = Field (field_name: string) (conversion: "char option") (format_spec: string)

text \<open>
  The scan of a field name, from the character after \<open>{\<close>: it ends at the first \<open>}\<close>,
  \<open>:\<close> or \<open>!\<close> outside square brackets and returns the name, that character and
  the rest. Inside \<open>[...]\<close> (the flag \<open>inb\<close>) every character belongs to the name.
\<close>

fun scan_field_name :: "bool \<Rightarrow> string \<Rightarrow> error + (string \<times> char \<times> string)" where
  "scan_field_name inb [] = Inl (ValueError ''expected '}' before end of string'')"
| "scan_field_name inb (c # cs) =
     (if inb then
        (case scan_field_name (c \<noteq> CHR '']'') cs of
           Inl e \<Rightarrow> Inl e
         | Inr (n, t, r) \<Rightarrow> Inr (c # n, t, r))
      else if c = CHR ''{'' then Inl (ValueError ''unexpected '{' in field name'')
      else if c = CHR ''}'' \<or> c = CHR '':'' \<or> c = CHR ''!'' then Inr ([], c, cs)
      else
        (case scan_field_name (c = CHR ''['') cs of
           Inl e \<Rightarrow> Inl e
         | Inr (n, t, r) \<Rightarrow> Inr (c # n, t, r)))"

text \<open>
  The scan of a format specification: braces nest, and the \<open>}\<close> that closes the field
  is the one met at depth 0.
\<close>

fun scan_format_spec :: "nat \<Rightarrow> string \<Rightarrow> error + (string \<times> string)" where
  "scan_format_spec depth [] = Inl (ValueError ''unmatched '{' in format spec'')"
| "scan_format_spec depth (c # cs) =
     (if c = CHR ''}'' \<and> depth = 0 then Inr ([], cs)
      else
        (case scan_format_spec
                (if c = CHR ''{'' then Suc depth else if c = CHR ''}'' then depth - 1 else depth) cs of
           Inl e \<Rightarrow> Inl e
         | Inr (sp, r) \<Rightarrow> Inr (c # sp, r)))"

text \<open>\<open>parse_field\<close>: name, optional conversion \<open>!c\<close>, optional specification \<open>:spec\<close>.\<close>

definition parse_field :: "string \<Rightarrow> error + (field \<times> string)" where
  "parse_field s =
     (case scan_field_name False s of
        Inl e \<Rightarrow> Inl e
      | Inr (n, t, r) \<Rightarrow>
          if t = CHR ''}'' then Inr (Field n None [], r)
          else if t = CHR ''!'' then
            (case r of
               [] \<Rightarrow> Inl (ValueError ''end of string while looking for conversion specifier'')
             | cv # r2 \<Rightarrow>
                 (case r2 of
                    [] \<Rightarrow> Inl (ValueError ''unmatched '{' in format spec'')
                  | c2 # r3 \<Rightarrow>
                      if c2 = CHR ''}'' then Inr (Field n (Some cv) [], r3)
                      else if c2 \<noteq> CHR '':'' then
                        Inl (ValueError ''expected ':' after conversion specifier'')
                      else
                        (case scan_format_spec 0 r3 of
                           Inl e \<Rightarrow> Inl e
                         | Inr (sp, r4) \<Rightarrow> Inr (Field n (Some cv) sp, r4))))
          else
            (case scan_format_spec 0 r of
               Inl e \<Rightarrow> Inl e
             | Inr (sp, r4) \<Rightarrow> Inr (Field n None sp, r4)))"

text \<open>
  \<open>get_integer\<close> reads a name as a decimal index, character by character: the first
  character that is no digit ends the reading with "not an index" (\<open>None\<close>, the \<open>-1\<close> of
  CPython), and a digit that would take the value above \<open>PY_SSIZE_T_MAX\<close> (here of a
  64-bit build) raises \<open>ValueError\<close> at once, whatever follows it. The empty name is not
  an index.
\<close>

definition is_digit :: "char \<Rightarrow> bool" where
  "is_digit c = (c \<in> set ''0123456789'')"

definition digit_value :: "char \<Rightarrow> int" where
  "digit_value c = of_char c - of_char (CHR ''0'')"

definition PY_SSIZE_T_MAX :: int where
  "PY_SSIZE_T_MAX = 9223372036854775807"

fun get_integer_from :: "int \<Rightarrow> string \<Rightarrow> error + int option" where
  "get_integer_from accumulator [] = Inr (Some accumulator)"
| "get_integer_from accumulator (c # cs) =
     (if \<not> is_digit c then Inr None
      else if accumulator > (PY_SSIZE_T_MAX - digit_value c) div 10
      then Inl (ValueError ''Too many decimal digits in format string'')
      else get_integer_from (accumulator * 10 + digit_value c) cs)"

definition get_integer :: "string \<Rightarrow> error + int option" where
  "get_integer s = (if s = [] then Inr None else get_integer_from 0 s)"

text \<open>
  \<open>field_name_split\<close> and \<open>get_field_object\<close>: the first name runs to the first \<open>.\<close> or
  \<open>[\<close> and is read by \<open>get_integer\<close>. Empty, it asks for the next positional argument,
  which is the one of index 0; an index asks for the positional argument of that index;
  anything else is looked up among the keyword arguments.
\<close>

type_synonym field_ext = "kwargs \<Rightarrow> string \<Rightarrow> string \<Rightarrow> char option \<Rightarrow> string \<Rightarrow> error + string"

definition is_accessor_start :: "char \<Rightarrow> bool" where
  "is_accessor_start c = (c = CHR ''.'' \<or> c = CHR ''['')"

definition render_field :: "field_ext \<Rightarrow> kwargs \<Rightarrow> field \<Rightarrow> error + string" where
  "render_field ext kw f =
     (let first = takeWhile (\<lambda>c. \<not> is_accessor_start c) (field_name f);
          rest = dropWhile (\<lambda>c. \<not> is_accessor_start c) (field_name f)
      in case get_integer first of
           Inl e \<Rightarrow> Inl e
         | Inr first_idx \<Rightarrow>
             if first = [] then Inl (IndexError 0)
             else
               (case first_idx of
                  Some i \<Rightarrow> Inl (IndexError i)
                | None \<Rightarrow>
                    (case kw first of
                       None \<Rightarrow> Inl (KeyError first)
                     | Some v \<Rightarrow>
                         if rest = [] \<and> conversion f = None \<and> format_spec f = [] then Inr v
                         else ext kw v rest (conversion f) (format_spec f))))"

text \<open>Each scan consumes input, which is why the formatter's loop ends.\<close>

lemma scan_field_name_shorter:
  "scan_field_name inb s = Inr (n, t, r) \<Longrightarrow> length r < length s"
proof (induction s arbitrary: inb n)
  case Nil
  then show ?case by simp
next
  case (Cons c cs)
  then show ?case
    by (fastforce split: if_splits sum.splits)
qed

lemma scan_format_spec_shorter:
  "scan_format_spec d s = Inr (sp, r) \<Longrightarrow> length r < length s"
proof (induction s arbitrary: d sp)
  case Nil
  then show ?case by simp
next
  case (Cons c cs)
  then show ?case
    by (fastforce split: if_splits sum.splits)
qed

lemma parse_field_shorter:
  "parse_field s = Inr (f, r) \<Longrightarrow> length r < length s"
  unfolding parse_field_def
  by (auto split: sum.splits if_splits list.splits
           dest!: scan_field_name_shorter scan_format_spec_shorter)

text \<open>
  The loop of \<open>build_string\<close> over \<open>MarkupIterator_next\<close>: literal text up to the next
  brace, a doubled brace as one literal brace, a single \<open>}\<close> or a final \<open>{\<close> as an
  error, otherwise a field, which is rendered before the rest of the string is looked
  at.
\<close>

function str_format :: "field_ext \<Rightarrow> kwargs \<Rightarrow> string \<Rightarrow> error + string" where
  "str_format ext kw s =
     (let literal = takeWhile (\<lambda>c. \<not> is_brace c) s in
      case dropWhile (\<lambda>c. \<not> is_brace c) s of
        [] \<Rightarrow> Inr literal
      | c # r \<Rightarrow>
          (case r of
             [] \<Rightarrow>
               (if c = CHR ''}'' then Inl (ValueError ''Single '}' encountered in format string'')
                else Inl (ValueError ''Single '{' encountered in format string''))
           | c' # r' \<Rightarrow>
               if c' = c then
                 (case str_format ext kw r' of
                    Inl e \<Rightarrow> Inl e
                  | Inr out \<Rightarrow> Inr (literal @ c # out))
               else if c = CHR ''}'' then
                 Inl (ValueError ''Single '}' encountered in format string'')
               else
                 (case parse_field r of
                    Inl e \<Rightarrow> Inl e
                  | Inr (f, after) \<Rightarrow>
                      (case render_field ext kw f of
                         Inl e \<Rightarrow> Inl e
                       | Inr rendered \<Rightarrow>
                           (case str_format ext kw after of
                              Inl e \<Rightarrow> Inl e
                            | Inr out \<Rightarrow> Inr (literal @ rendered @ out))))))"
  by pat_completeness auto
termination
proof (relation "measure (\<lambda>(ext, kw, s). length s)")
  show "wf (measure (\<lambda>(ext, kw, s). length s))" by simp
next
  fix ext :: field_ext and kw :: kwargs and s literal c r c' r'
  assume "dropWhile (\<lambda>c. \<not> is_brace c) s = c # r" "r = c' # r'"
  then have "length (dropWhile (\<lambda>c. \<not> is_brace c) s) = Suc (Suc (length r'))" by simp
  moreover have "length (dropWhile (\<lambda>c. \<not> is_brace c) s) \<le> length s"
    by (rule length_dropWhile_le)
  ultimately show "((ext, kw, r'), (ext, kw, s)) \<in> measure (\<lambda>(ext, kw, s). length s)"
    by simp
next
  fix ext :: field_ext and kw :: kwargs and s literal c r c' r' x2 f after rendered
  assume d: "dropWhile (\<lambda>c. \<not> is_brace c) s = c # r"
    and p: "parse_field r = Inr x2" "(f, after) = x2"
  from p have "length after < length r" using parse_field_shorter [of r f after] by simp
  moreover have "length (dropWhile (\<lambda>c. \<not> is_brace c) s) \<le> length s"
    by (rule length_dropWhile_le)
  ultimately show "((ext, kw, after), (ext, kw, s)) \<in> measure (\<lambda>(ext, kw, s). length s)"
    using d by simp
qed

declare str_format.simps [simp del]

text \<open>
  \<open>repr\<close> of a \<open>str\<close>, which is what \<open>str(KeyError(key))\<close> prints. A \<open>char\<close> is read
  as the code point of the same number (Latin-1).
\<close>

definition hex_digit :: "int \<Rightarrow> char" where
  "hex_digit n = ''0123456789abcdef'' ! nat n"

definition py_printable :: "char \<Rightarrow> bool" where
  "py_printable c =
     (let n = (of_char c :: int)
      in (32 \<le> n \<and> n < 127) \<or> (161 \<le> n \<and> n \<noteq> 173))"

definition repr_char :: "char \<Rightarrow> char \<Rightarrow> string" where
  "repr_char quote c =
     (if c = quote \<or> c = CHR 0x5C then [CHR 0x5C, c]
      else if c = CHR 0x09 then [CHR 0x5C, CHR ''t'']
      else if c = CHR 0x0A then [CHR 0x5C, CHR ''n'']
      else if c = CHR 0x0D then [CHR 0x5C, CHR ''r'']
      else if py_printable c then [c]
      else [CHR 0x5C, CHR ''x'', hex_digit (of_char c div 16), hex_digit (of_char c mod 16)])"

definition py_repr :: "string \<Rightarrow> string" where
  "py_repr s =
     (let quote = (if CHR 0x27 \<in> set s \<and> CHR 0x22 \<notin> set s then CHR 0x22 else CHR 0x27)
      in quote # concat (map (repr_char quote) s) @ [quote])"



text \<open>
  \<open>Template.format_prompt(self, **kwargs)\<close>. A keyword argument named \<open>self\<close> collides
  with the method's own parameter and the call raises \<open>TypeError\<close> before the body
  runs. In the body a \<open>KeyError\<close> of the formatter is re-raised as \<open>ValueError\<close>; every
  other exception passes through.
\<close>

definition format_prompt :: "field_ext \<Rightarrow> Template \<Rightarrow> kwargs \<Rightarrow> error + string" where
  "format_prompt ext t kw =
     (if kw ''self'' \<noteq> None then
        Inl (TypeError (''Template.format_prompt() got multiple values for argument ''
                          @ quoted ''self''))
      else
        (case str_format ext kw (prompt t) of
           Inl (KeyError k) \<Rightarrow>
             Inl (ValueError (''Missing required template variable: '' @ py_repr k))
         | Inl e \<Rightarrow> Inl e
         | Inr out \<Rightarrow> Inr out))"

text \<open>
  A field extension for prompts that have no accessor, conversion or format
  specification: it is never called on them.
\<close>

definition plain_only :: field_ext where
  "plain_only kw v acc cv sp =
     Inl (LibraryError ''accessor, conversion or format specification'')"

subsection \<open>Prompts made of text and named placeholders\<close>

text \<open>
  The prompts the specification speaks of: literal text without braces, and
  placeholders \<open>{key}\<close> whose key is a plain name: not empty, without any of the
  characters that end or structure a field, and not read as an index, that is with a
  character other than a digit before its leading digits pass \<open>PY_SSIZE_T_MAX\<close>.
\<close>

datatype segment = Lit string | Var string

fun render_segment :: "segment \<Rightarrow> string" where
  "render_segment (Lit t) = t"
| "render_segment (Var k) = CHR ''{'' # k @ ''}''"

definition template_text :: "segment list \<Rightarrow> string" where
  "template_text segs = concat (map render_segment segs)"

definition plain_key :: "string \<Rightarrow> bool" where
  "plain_key k =
     (k \<noteq> [] \<and> list_all (\<lambda>c. c \<notin> set ''{}[.!:'') k \<and> get_integer k = Inr None)"

fun plain_segment :: "segment \<Rightarrow> bool" where
  "plain_segment (Lit t) = list_all (\<lambda>c. \<not> is_brace c) t"
| "plain_segment (Var k) = plain_key k"

fun placeholders :: "segment list \<Rightarrow> string list" where
  "placeholders [] = []"
| "placeholders (Lit t # segs) = placeholders segs"
| "placeholders (Var k # segs) = k # placeholders segs"

fun substitute :: "kwargs \<Rightarrow> segment \<Rightarrow> string" where
  "substitute kw (Lit t) = t"
| "substitute kw (Var k) = (case kw k of None \<Rightarrow> [] | Some v \<Rightarrow> v)"

text \<open>
  What the specification says formatting does on such a prompt: the segments are
  written out from left to right, each placeholder replaced by its entry, and the first
  placeholder without an entry stops the formatting with its key.
\<close>

fun fill :: "kwargs \<Rightarrow> segment list \<Rightarrow> error + string" where
  "fill kw [] = Inr []"
| "fill kw (Lit t # segs) =
     (case fill kw segs of Inl e \<Rightarrow> Inl e | Inr out \<Rightarrow> Inr (t @ out))"
| "fill kw (Var k # segs) =
     (case kw k of
        None \<Rightarrow> Inl (KeyError k)
      | Some v \<Rightarrow> (case fill kw segs of Inl e \<Rightarrow> Inl e | Inr out \<Rightarrow> Inr (v @ out)))"

text \<open>A string still shows a placeholder when a \<open>}\<close> follows a \<open>{\<close>.\<close>

definition has_placeholder :: "string \<Rightarrow> bool" where
  "has_placeholder s = (CHR ''}'' \<in> set (dropWhile (\<lambda>c. c \<noteq> CHR ''{'') s))"

section \<open>Template store\<close>

text \<open>
  \<open>class TemplateManager\<close>: the directory and the collection, a \<open>dict\<close> from names to
  templates. The file system is a flat table from paths to files; \<open>os.path.exists\<close>
  is membership, \<open>os.remove\<close> deletes the entry.
\<close>

record TemplateManager =
  template_dir :: string
  templates :: "(string \<times> Template) list"

type_synonym filesystem = "(string \<times> template_record) list"

text \<open>\<open>os.path.join\<close> of two components (POSIX).\<close>

definition path_join :: "string \<Rightarrow> string \<Rightarrow> string" where
  "path_join a b =
     (if b \<noteq> [] \<and> hd b = CHR ''/'' then b
      else if a = [] \<or> last a = CHR ''/'' then a @ b
      else a @ ''/'' @ b)"

definition add_template :: "TemplateManager \<Rightarrow> Template \<Rightarrow> TemplateManager" where
  "add_template tm template =
     tm\<lparr>templates := dict_set (templates tm) (name template) template\<rparr>"

definition get_template :: "TemplateManager \<Rightarrow> string \<Rightarrow> Template option" where
  "get_template tm nm = dict_get (templates tm) nm"

definition delete_template ::
  "TemplateManager \<Rightarrow> filesystem \<Rightarrow> string \<Rightarrow> bool \<times> TemplateManager \<times> filesystem" where
  "delete_template tm fs nm =
     (if dict_contains (templates tm) nm then
        (let tm' = tm\<lparr>templates := dict_del (templates tm) nm\<rparr>;
             filepath = path_join (template_dir tm) (nm @ ''.json'')
         in (True, tm', if dict_contains fs filepath then dict_del fs filepath else fs))
      else (False, tm, fs))"

section \<open>Generation facade\<close>

text \<open>
  \<open>ImageGenerator.generate_from_template\<close>. The call of \<open>self.generate\<close>, which runs
  the diffusion model, is the parameter \<open>generate\<close>: it receives the prompt, the output
  path and the merged keyword arguments.
\<close>

definition template_not_found :: "string \<Rightarrow> string" where
  "template_not_found nm = ''Template '' @ quoted nm @ '' not found''"

definition generate_from_template ::
  "(string \<Rightarrow> string option \<Rightarrow> pydict \<Rightarrow> error + 'img) \<Rightarrow> field_ext \<Rightarrow> TemplateManager \<Rightarrow>
   string \<Rightarrow> kwargs option \<Rightarrow> string option \<Rightarrow> pydict \<Rightarrow> error + 'img" where
  "generate_from_template generate ext tm template_name template_vars output_path generation_kwargs =
     (case get_template tm template_name of
        None \<Rightarrow> Inl (ValueError (template_not_found template_name))
      | Some template \<Rightarrow>
          (let vars = (case template_vars of None \<Rightarrow> Map.empty | Some v \<Rightarrow> v) in
           case format_prompt ext template vars of
             Inl e \<Rightarrow> Inl e
           | Inr prm \<Rightarrow>
               (let params = dict_update (parameters template) generation_kwargs;
                    params' = (if \<not> dict_contains params ''negative_prompt''
                               then dict_set params ''negative_prompt'' (PStr (negative_prompt template))
                               else params)
                in generate prm output_path params')))"

text \<open>
  The merge as the specification words it: an override wins, then the template's own
  parameter, and \<open>negative_prompt\<close> falls back to the template's stored value.
\<close>

definition merge_spec :: "Template \<Rightarrow> pydict \<Rightarrow> string \<Rightarrow> pyval option" where
  "merge_spec t overrides k =
     (case dict_get overrides k of
        Some v \<Rightarrow> Some v
      | None \<Rightarrow>
          (case dict_get (parameters t) k of
             Some v \<Rightarrow> Some v
           | None \<Rightarrow> if k = ''negative_prompt'' then Some (PStr (negative_prompt t)) else None))"

section \<open>Floating-point arithmetic\<close>

text \<open>
  A Python \<open>float\<close> is an IEEE 754 double. The model gives a finite double by its real
  value and rounds the exact result of every arithmetic operation to the nearest
  double, ties to even, as the hardware does. \<open>pow2 k\<close> is \<open>2\<close> to the power \<open>k\<close>;
  \<open>float_exponent x\<close> is the exponent of the binade of \<open>x\<close>, the largest \<open>k\<close> between -1022
  and 1023 with \<open>pow2 k\<close> at most the magnitude of \<open>x\<close>, and -1022 below the normal range;
  a double is a multiple of \<open>pow2 (k - 52)\<close>. A result of magnitude \<open>pow2 1024\<close> or more is
  what the hardware returns as an infinity. Arguments that are NaN or infinite are
  outside the model.
\<close>

definition pow2 :: "int \<Rightarrow> real" where
  "pow2 k = (if 0 \<le> k then 2 ^ nat k else 1 / 2 ^ nat (- k))"

fun exponent_up :: "nat \<Rightarrow> int \<Rightarrow> real \<Rightarrow> int" where
  "exponent_up 0 k x = k"
| "exponent_up (Suc n) k x = (if x < pow2 (k + 1) then k else exponent_up n (k + 1) x)"

fun exponent_down :: "nat \<Rightarrow> int \<Rightarrow> real \<Rightarrow> int" where
  "exponent_down 0 k x = k"
| "exponent_down (Suc n) k x = (if pow2 k \<le> x then k else exponent_down n (k - 1) x)"

definition float_exponent :: "real \<Rightarrow> int" where
  "float_exponent x =
     (if 1 \<le> \<bar>x\<bar> then exponent_up 1023 0 \<bar>x\<bar> else exponent_down 1021 (- 1) \<bar>x\<bar>)"

definition round_half_even :: "real \<Rightarrow> int" where
  "round_half_even q =
     (let f = \<lfloor>q\<rfloor>; d = q - of_int f
      in if d < 1 / 2 then f else if 1 / 2 < d then f + 1 else if even f then f else f + 1)"

definition to_double :: "real \<Rightarrow> real" where
  "to_double x =
     (let ulp = pow2 (float_exponent x - 52)
      in (if x < 0 then - 1 else 1) * of_int (round_half_even (\<bar>x\<bar> / ulp)) * ulp)"

text \<open>
  \<open>x * y\<close> and \<open>x + y\<close> on floats; an \<open>int\<close> operand is converted first, which is exact
  for the constants of this code. A decimal literal such as \<open>0.3\<close> denotes
  \<open>to_double 0.3\<close>; \<open>0.5\<close>, \<open>1.0\<close> and \<open>7.5\<close> are doubles as they stand.
\<close>

definition float_mul :: "real \<Rightarrow> real \<Rightarrow> real" where
  "float_mul x y = to_double (x * y)"

definition float_add :: "real \<Rightarrow> real \<Rightarrow> real" where
  "float_add x y = to_double (x + y)"

text \<open>\<open>int(x)\<close> of a float: truncation towards zero; an infinity raises \<open>OverflowError\<close>.\<close>

definition py_int :: "real \<Rightarrow> error + int" where
  "py_int x =
     (if pow2 1024 \<le> \<bar>x\<bar> then Inl (OverflowError ''cannot convert float infinity to integer'')
      else Inr (if 0 \<le> x then \<lfloor>x\<rfloor> else \<lceil>x\<rceil>))"

section \<open>Enhancement pipeline\<close>

text \<open>
  \<open>class ImageEnhancer\<close> of \<open>enhancers/image_enhancer.py\<close>. A raster is a Pillow
  image: its size, its colour mode and its pixel data.
\<close>

record raster =
  width :: nat
  height :: nat
  mode :: string
  pixels :: "nat list"

text \<open>
  What a caller may pass as \<open>image\<close>: a path, a Pillow image, a numpy array, or an
  object of any other type.
\<close>

datatype image_source =
    FromPath string
  | FromImage raster
  | FromArray "nat list list"
  | FromOther

text \<open>The files written by \<open>Image.save\<close>: path, image and the \<open>quality\<close> passed.\<close>

type_synonym sink = "(string \<times> raster \<times> int option) list"

text \<open>
  The operations of Pillow and OpenCV that the enhancer calls are parameters of the
  model. Opening, building from an array, resizing and saving may raise; the filters
  return an image. \<open>nl_means_denoise im h\<close> stands for
  \<open>cv2.fastNlMeansDenoisingColored(array, None, h, h, 7, 21)\<close> between the conversions
  to and from a numpy array, \<open>unsharp_mask im radius percent threshold\<close> for
  \<open>im.filter(ImageFilter.UnsharpMask(...))\<close>, the three enhancers for
  \<open>ImageEnhance.Color\<close>, \<open>Contrast\<close> and \<open>Brightness\<close> with their factor, and
  \<open>image_save\<close> for the creation of the parent directory followed by
  \<open>Image.save(path, quality=q)\<close>. What the methods print is not modelled.
\<close>

record imaging =
  image_open :: "string \<Rightarrow> error + raster"
  image_fromarray :: "nat list list \<Rightarrow> error + raster"
  image_convert_rgb :: "raster \<Rightarrow> raster"
  image_resize :: "raster \<Rightarrow> int \<times> int \<Rightarrow> error + raster"
  nl_means_denoise :: "raster \<Rightarrow> int \<Rightarrow> raster"
  unsharp_mask :: "raster \<Rightarrow> int \<Rightarrow> int \<Rightarrow> int \<Rightarrow> raster"
  color_enhancer :: "raster \<Rightarrow> real \<Rightarrow> raster"
  contrast_enhancer :: "raster \<Rightarrow> real \<Rightarrow> raster"
  brightness_enhancer :: "raster \<Rightarrow> real \<Rightarrow> raster"
  image_save :: "raster \<Rightarrow> string \<Rightarrow> int option \<Rightarrow> sink \<Rightarrow> error + sink"

text \<open>
  The keys of the configuration that the enhancer reads with \<open>config.get\<close>; \<open>None\<close>
  when the key is missing.
\<close>

record config =
  cfg_upscale_factor :: "int option"
  cfg_denoise_strength :: "real option"
  cfg_sharpen_amount :: "real option"
  cfg_color_enhance :: "bool option"
  cfg_output_quality :: "int option"

text \<open>\<open>Config.DEFAULT_CONFIG\<close>.\<close>

definition DEFAULT_CONFIG :: config where
  "DEFAULT_CONFIG =
     \<lparr> cfg_upscale_factor = Some 2,
       cfg_denoise_strength = Some (to_double 0.3),
       cfg_sharpen_amount = Some 0.5,
       cfg_color_enhance = Some True,
       cfg_output_quality = Some 95 \<rparr>"

definition DEFAULT_DENOISE_H_PARAM :: real where
  "DEFAULT_DENOISE_H_PARAM = 30"

definition UNSHARP_MASK_RADIUS :: int where
  "UNSHARP_MASK_RADIUS = 2"

definition UNSHARP_MASK_PERCENT_BASE :: real where
  "UNSHARP_MASK_PERCENT_BASE = 150"

definition UNSHARP_MASK_THRESHOLD :: int where
  "UNSHARP_MASK_THRESHOLD = 3"

text \<open>Sequencing of steps that may raise.\<close>

definition and_then :: "error + 'a \<Rightarrow> ('a \<Rightarrow> error + 'b) \<Rightarrow> error + 'b" where
  "and_then r f = (case r of Inl e \<Rightarrow> Inl e | Inr v \<Rightarrow> f v)"

text \<open>\<open>x or y\<close> on an optional number: \<open>None\<close> and zero are falsy.\<close>

definition num_or :: "'a::zero option \<Rightarrow> 'a option \<Rightarrow> 'a option" where
  "num_or x y = (case x of None \<Rightarrow> y | Some v \<Rightarrow> if v = 0 then y else Some v)"

text \<open>
  The private methods \<open>_load_image\<close>, \<open>_upscale\<close>, \<open>_denoise\<close>, \<open>_sharpen\<close>,
  \<open>_enhance_color\<close>, \<open>_enhance_contrast\<close> and \<open>_adjust_brightness\<close>; the leading
  underscore is written \<open>u_\<close>.
\<close>

definition u_load_image :: "imaging \<Rightarrow> image_source \<Rightarrow> error + raster" where
  "u_load_image L source =
     (case source of
        FromPath p \<Rightarrow> and_then (image_open L p) (\<lambda>im. Inr (image_convert_rgb L im))
      | FromImage im \<Rightarrow> Inr (image_convert_rgb L im)
      | FromArray a \<Rightarrow> and_then (image_fromarray L a) (\<lambda>im. Inr (image_convert_rgb L im))
      | FromOther \<Rightarrow> Inl (ValueError ''Unsupported image type''))"

definition u_upscale :: "imaging \<Rightarrow> raster \<Rightarrow> int \<Rightarrow> error + raster" where
  "u_upscale L im factor =
     image_resize L im (int (width im) * factor, int (height im) * factor)"

definition u_denoise :: "imaging \<Rightarrow> raster \<Rightarrow> real option \<Rightarrow> error + raster" where
  "u_denoise L im strength =
     (case strength of
        None \<Rightarrow> Inl (TypeError (''unsupported operand type(s) for *: '' @ quoted ''NoneType''
                            @ '' and '' @ quoted ''int''))
      | Some s \<Rightarrow>
          and_then (py_int (float_mul s DEFAULT_DENOISE_H_PARAM))
            (\<lambda>h. Inr (nl_means_denoise L im h)))"

definition u_sharpen :: "imaging \<Rightarrow> raster \<Rightarrow> real option \<Rightarrow> error + raster" where
  "u_sharpen L im amount =
     (case amount of
        None \<Rightarrow> Inl (TypeError (quoted ''<='' @ '' not supported between instances of ''
                            @ quoted ''NoneType'' @ '' and '' @ quoted ''int''))
      | Some a \<Rightarrow>
          if a \<le> 0 then Inr im
          else and_then (py_int (float_mul a UNSHARP_MASK_PERCENT_BASE))
                 (\<lambda>percent. Inr (unsharp_mask L im UNSHARP_MASK_RADIUS percent
                                   UNSHARP_MASK_THRESHOLD)))"

definition u_enhance_color :: "imaging \<Rightarrow> raster \<Rightarrow> raster" where
  "u_enhance_color L im = color_enhancer L im (to_double 1.3)"

definition u_enhance_contrast :: "imaging \<Rightarrow> raster \<Rightarrow> raster" where
  "u_enhance_contrast L im = contrast_enhancer L im (to_double 1.2)"

definition u_adjust_brightness :: "imaging \<Rightarrow> raster \<Rightarrow> real \<Rightarrow> raster" where
  "u_adjust_brightness L im adjustment = brightness_enhancer L im (float_add 1.0 adjustment)"

text \<open>
  The block that ends \<open>enhance\<close>, \<open>super_resolution\<close>, \<open>remove_noise\<close> and
  \<open>adjust_lighting\<close> alike: save when \<open>output_path\<close> is a non-empty string, then
  return the image.
\<close>

definition save_output ::
  "imaging \<Rightarrow> config \<Rightarrow> sink \<Rightarrow> string option \<Rightarrow> raster \<Rightarrow> error + (raster \<times> sink)" where
  "save_output L cfg snk output_path img =
     (case output_path of
        None \<Rightarrow> Inr (img, snk)
      | Some p \<Rightarrow>
          if p = [] then Inr (img, snk)
          else and_then (image_save L img p (cfg_output_quality cfg) snk)
                 (\<lambda>snk'. Inr (img, snk')))"

text \<open>The keyword arguments of \<open>enhance\<close> and their defaults.\<close>

record enhance_args =
  upscale_factor :: "int option"
  denoise :: bool
  denoise_strength :: "real option"
  sharpen :: bool
  sharpen_amount :: "real option"
  color_enhance :: "bool option"
  contrast_enhance :: bool
  brightness_adjust :: "real option"
  output_path :: "string option"

definition enhance_defaults :: enhance_args where
  "enhance_defaults =
     \<lparr> upscale_factor = None, denoise = True, denoise_strength = None, sharpen = True,
       sharpen_amount = None, color_enhance = None, contrast_enhance = True,
       brightness_adjust = None, output_path = None \<rparr>"

definition enhance ::
  "imaging \<Rightarrow> config \<Rightarrow> sink \<Rightarrow> image_source \<Rightarrow> enhance_args \<Rightarrow> error + (raster \<times> sink)" where
  "enhance L cfg snk source args =
     and_then (u_load_image L source) (\<lambda>img0.
       let upscale_factor' = num_or (upscale_factor args) (cfg_upscale_factor cfg);
           denoise_strength' = num_or (denoise_strength args) (cfg_denoise_strength cfg);
           sharpen_amount' = num_or (sharpen_amount args) (cfg_sharpen_amount cfg);
           color_enhance' = (case color_enhance args of
                               Some b \<Rightarrow> Some b
                             | None \<Rightarrow> cfg_color_enhance cfg)
       in
       and_then (case upscale_factor' of
                   Some f \<Rightarrow> if f \<noteq> 0 \<and> f > 1 then u_upscale L img0 f else Inr img0
                 | None \<Rightarrow> Inr img0) (\<lambda>img1.
       and_then (if denoise args then u_denoise L img1 denoise_strength' else Inr img1) (\<lambda>img2.
       let img3 = (if color_enhance' = Some True then u_enhance_color L img2 else img2);
           img4 = (if contrast_enhance args then u_enhance_contrast L img3 else img3);
           img5 = (case brightness_adjust args of
                     Some b \<Rightarrow> if b \<noteq> 0 then u_adjust_brightness L img4 b else img4
                   | None \<Rightarrow> img4)
       in
       and_then (if sharpen args then u_sharpen L img5 sharpen_amount' else Inr img5) (\<lambda>img6.
       save_output L cfg snk (output_path args) img6))))"

definition super_resolution ::
  "imaging \<Rightarrow> config \<Rightarrow> sink \<Rightarrow> image_source \<Rightarrow> int \<Rightarrow> string option \<Rightarrow> error + (raster \<times> sink)" where
  "super_resolution L cfg snk source scale out =
     and_then (u_load_image L source) (\<lambda>img.
     and_then (u_upscale L img scale) (\<lambda>result.
     and_then (u_sharpen L result (Some (to_double 0.3))) (\<lambda>result'.
     save_output L cfg snk out result')))"

definition adjust_lighting ::
  "imaging \<Rightarrow> config \<Rightarrow> sink \<Rightarrow> image_source \<Rightarrow> real \<Rightarrow> real \<Rightarrow> string option \<Rightarrow>
   error + (raster \<times> sink)" where
  "adjust_lighting L cfg snk source brightness contrast out =
     and_then (u_load_image L source) (\<lambda>img.
       let img1 = (if brightness \<noteq> 0.0 then u_adjust_brightness L img brightness else img);
           img2 = (if contrast \<noteq> 1.0 then contrast_enhancer L img1 contrast else img1)
       in save_output L cfg snk out img2)"

subsection \<open>The pipeline as the specification words it\<close>

text \<open>
  The six steps in their fixed order, each with its resolved parameter, and the steps
  that a call enables. \<open>run_steps\<close> composes them: every step receives the output of
  the one before, and the first error ends the run.
\<close>

datatype step =
    Upscale int
  | Denoise "real option"
  | ColorEnhance
  | ContrastEnhance
  | BrightnessAdjust real
  | Sharpen "real option"

fun apply_step :: "imaging \<Rightarrow> step \<Rightarrow> raster \<Rightarrow> error + raster" where
  "apply_step L (Upscale f) img = u_upscale L img f"
| "apply_step L (Denoise s) img = u_denoise L img s"
| "apply_step L ColorEnhance img = Inr (u_enhance_color L img)"
| "apply_step L ContrastEnhance img = Inr (u_enhance_contrast L img)"
| "apply_step L (BrightnessAdjust b) img = Inr (u_adjust_brightness L img b)"
| "apply_step L (Sharpen a) img = u_sharpen L img a"

fun run_steps :: "imaging \<Rightarrow> step list \<Rightarrow> raster \<Rightarrow> error + raster" where
  "run_steps L [] img = Inr img"
| "run_steps L (s # ss) img = and_then (apply_step L s img) (run_steps L ss)"

fun step_position :: "step \<Rightarrow> nat" where
  "step_position (Upscale f) = 0"
| "step_position (Denoise s) = 1"
| "step_position ColorEnhance = 2"
| "step_position ContrastEnhance = 3"
| "step_position (BrightnessAdjust b) = 4"
| "step_position (Sharpen a) = 5"

definition enabled_steps :: "config \<Rightarrow> enhance_args \<Rightarrow> step list" where
  "enabled_steps cfg args =
     (case num_or (upscale_factor args) (cfg_upscale_factor cfg) of
        Some f \<Rightarrow> if f > 1 then [Upscale f] else []
      | None \<Rightarrow> [])
     @ (if denoise args
        then [Denoise (num_or (denoise_strength args) (cfg_denoise_strength cfg))] else [])
     @ (if (case color_enhance args of Some b \<Rightarrow> b | None \<Rightarrow> cfg_color_enhance cfg = Some True)
        then [ColorEnhance] else [])
     @ (if contrast_enhance args then [ContrastEnhance] else [])
     @ (case brightness_adjust args of
          Some b \<Rightarrow> if b \<noteq> 0 then [BrightnessAdjust b] else []
        | None \<Rightarrow> [])
     @ (if sharpen args
        then [Sharpen (num_or (sharpen_amount args) (cfg_sharpen_amount cfg))] else [])"

subsection \<open>A small imaging library\<close>

text \<open>
  A stand-in for Pillow and OpenCV on which the theorems are instantiated. Conversion
  sets the mode. Resizing follows Pillow in what matters here: a request for the size
  the image already has returns a copy, a target size with a component below one is
  refused, any other request returns an image of the requested size. The filters
  change pixel values and keep the size.
\<close>

definition demo_imaging :: imaging where
  "demo_imaging =
     \<lparr> image_open = (\<lambda>p. Inl (LibraryError ''No such file or directory'')),
       image_fromarray = (\<lambda>a.
         Inr \<lparr> width = (case a of [] \<Rightarrow> 0 | row # _ \<Rightarrow> length row), height = length a,
               mode = ''L'', pixels = concat a \<rparr>),
       image_convert_rgb = (\<lambda>im. im\<lparr>mode := ''RGB''\<rparr>),
       image_resize = (\<lambda>im (w, h).
         if w = int (width im) \<and> h = int (height im) then Inr im
         else if w < 1 \<or> h < 1 then Inl (ValueError ''height and width must be > 0'')
         else Inr (im\<lparr>width := nat w, height := nat h\<rparr>)),
       nl_means_denoise = (\<lambda>im h. im\<lparr>pixels := map (\<lambda>v. v - nat h) (pixels im)\<rparr>),
       unsharp_mask = (\<lambda>im radius percent threshold.
         im\<lparr>pixels := map (\<lambda>v. v + nat percent) (pixels im)\<rparr>),
       color_enhancer = (\<lambda>im f. im\<lparr>pixels := map (\<lambda>v. nat \<lfloor>real v * f\<rfloor>) (pixels im)\<rparr>),
       contrast_enhancer = (\<lambda>im f. im\<lparr>pixels := map (\<lambda>v. nat \<lfloor>real v * f\<rfloor>) (pixels im)\<rparr>),
       brightness_enhancer = (\<lambda>im f. im\<lparr>pixels := map (\<lambda>v. nat \<lfloor>real v * f\<rfloor>) (pixels im)\<rparr>),
       image_save = (\<lambda>im p q snk. Inr (dict_set snk p (im, q))) \<rparr>"

text \<open>
  What the size claims assume of the library: a successful resize returns the size
  asked for, and the unsharp mask and the conversion to RGB keep the size.
\<close>

definition resize_exact :: "imaging \<Rightarrow> bool" where
  "resize_exact L =
     (\<forall>im w h out. image_resize L im (w, h) = Inr out \<longrightarrow>
        int (width out) = w \<and> int (height out) = h)"

definition unsharp_keeps_size :: "imaging \<Rightarrow> bool" where
  "unsharp_keeps_size L =
     (\<forall>im r p t. width (unsharp_mask L im r p t) = width im \<and>
                height (unsharp_mask L im r p t) = height im)"

definition convert_keeps_size :: "imaging \<Rightarrow> bool" where
  "convert_keeps_size L =
     (\<forall>im. width (image_convert_rgb L im) = width im \<and>
           height (image_convert_rgb L im) = height im)"

section \<open>Properties of the template entity\<close>

lemma or_default_idem: "or_default (Some (or_default x d)) d = or_default x d"
  by (cases x) (simp_all add: or_default_def)

text \<open>
  Claim C1. For every template built by the constructor, from any name, description
  and prompt and any optional negative prompt, style, parameters and tags, reading back
  the record written by \<open>to_dict\<close> succeeds and gives the same template, field for
  field.
\<close>

theorem from_dict_to_dict_roundtrip:
  "from_dict (to_dict (Template_init nm descr prm neg sty params tgs))
     = Inr (Template_init nm descr prm neg sty params tgs)"
  by (simp add: from_dict_def to_dict_def data_get_def Template_init_def or_default_idem)




section \<open>Properties of prompt formatting\<close>

lemma scan_field_name_plain:
  "list_all (\<lambda>c. c \<notin> set ''{}[.!:'') k \<Longrightarrow>
   scan_field_name False (k @ CHR ''}'' # rest) = Inr (k, CHR ''}'', rest)"
  by (induction k) auto

lemma parse_field_plain:
  "list_all (\<lambda>c. c \<notin> set ''{}[.!:'') k \<Longrightarrow>
   parse_field (k @ CHR ''}'' # rest) = Inr (Field k None [], rest)"
  by (simp add: parse_field_def scan_field_name_plain)

lemma takeWhile_all: "list_all P xs \<Longrightarrow> takeWhile P xs = xs"
  by (induction xs) auto

lemma dropWhile_all: "list_all P xs \<Longrightarrow> dropWhile P xs = []"
  by (induction xs) auto

lemma render_field_plain:
  assumes "plain_key k"
  shows "render_field ext kw (Field k None []) =
           (case kw k of None \<Rightarrow> Inl (KeyError k) | Some v \<Rightarrow> Inr v)"
proof -
  from assms have a: "list_all (\<lambda>c. \<not> is_accessor_start c) k"
    unfolding plain_key_def is_accessor_start_def by (auto simp: list_all_iff)
  from assms have b: "k \<noteq> []" "get_integer k = Inr None"
    unfolding plain_key_def by auto
  show ?thesis
    using b
    by (simp add: render_field_def takeWhile_all [OF a] dropWhile_all [OF a] split: option.splits)
qed

lemma str_format_literal:
  assumes "list_all (\<lambda>c. \<not> is_brace c) t"
  shows "str_format ext kw (t @ rest) =
           (case str_format ext kw rest of Inl e \<Rightarrow> Inl e | Inr out \<Rightarrow> Inr (t @ out))"
proof -
  from assms have a:
    "takeWhile (\<lambda>c. \<not> is_brace c) (t @ rest) = t @ takeWhile (\<lambda>c. \<not> is_brace c) rest"
    by (simp add: takeWhile_append2 list_all_iff)
  from assms have b:
    "dropWhile (\<lambda>c. \<not> is_brace c) (t @ rest) = dropWhile (\<lambda>c. \<not> is_brace c) rest"
    by (simp add: dropWhile_append2 list_all_iff)
  note l = str_format.simps [of ext kw "t @ rest", unfolded a b]
  note r = str_format.simps [of ext kw rest]
  show ?thesis
  proof (cases "dropWhile (\<lambda>c. \<not> is_brace c) rest")
    case Nil
    show ?thesis unfolding l r Nil by simp
  next
    case (Cons c r1)
    show ?thesis
    proof (cases r1)
      case Nil
      show ?thesis unfolding l r Cons Nil by simp
    next
      case (Cons c' r')
      show ?thesis unfolding l r \<open>dropWhile (\<lambda>c. \<not> is_brace c) rest = c # r1\<close> Cons
        by (simp add: Let_def split: sum.splits prod.splits)
    qed
  qed
qed

lemma str_format_placeholder:
  assumes "plain_key k"
  shows "str_format ext kw (CHR ''{'' # k @ CHR ''}'' # rest) =
           (case kw k of
              None \<Rightarrow> Inl (KeyError k)
            | Some v \<Rightarrow>
                (case str_format ext kw rest of Inl e \<Rightarrow> Inl e | Inr out \<Rightarrow> Inr (v @ out)))"
proof -
  from assms have p: "list_all (\<lambda>c. c \<notin> set ''{}[.!:'') k"
    by (simp add: plain_key_def)
  from assms obtain c k'
    where k: "k @ CHR ''}'' # rest = c # k' @ CHR ''}'' # rest" "c \<noteq> CHR ''{''"
    by (cases k) (auto simp: plain_key_def)
  note pf = parse_field_plain [OF p, of rest, unfolded k(1)]
  note rf = render_field_plain [OF assms, of ext kw]
  have u: "str_format ext kw (CHR ''{'' # c # k' @ CHR ''}'' # rest) =
             (case render_field ext kw (Field k None []) of
                Inl e \<Rightarrow> Inl e
              | Inr rendered \<Rightarrow>
                  (case str_format ext kw rest of
                     Inl e \<Rightarrow> Inl e
                   | Inr out \<Rightarrow> Inr (rendered @ out)))"
    apply (subst str_format.simps)
    using k(2) apply (simp add: is_brace_def pf cong: sum.case_cong)
    done
  show ?thesis
    unfolding k(1) u rf by (cases "kw k") simp_all
qed

lemma str_format_nil: "str_format ext kw [] = Inr []"
  by (simp add: str_format.simps)

lemma str_format_segments:
  "list_all plain_segment segs \<Longrightarrow> str_format ext kw (template_text segs) = fill kw segs"
proof (induction segs)
  case Nil
  then show ?case by (simp add: template_text_def str_format_nil)
next
  case (Cons s segs)
  then have ih: "str_format ext kw (template_text segs) = fill kw segs" by simp
  show ?case
  proof (cases s)
    case (Lit t)
    with Cons.prems have "list_all (\<lambda>c. \<not> is_brace c) t" by simp
    from str_format_literal [OF this, of ext kw "template_text segs"] ih Lit
    show ?thesis by (simp add: template_text_def split: sum.splits)
  next
    case (Var k)
    with Cons.prems have "plain_key k" by simp
    from str_format_placeholder [OF this, of ext kw "template_text segs"] ih Var
    show ?thesis by (simp add: template_text_def split: option.splits)
  qed
qed

lemma fill_present:
  "list_all (\<lambda>k. kw k \<noteq> None) (placeholders segs) \<Longrightarrow>
   fill kw segs = Inr (concat (map (substitute kw) segs))"
proof (induction segs)
  case Nil
  then show ?case by simp
next
  case (Cons s segs)
  then show ?case by (cases s) auto
qed

lemma fill_missing:
  "find (\<lambda>k. kw k = None) (placeholders segs) = Some k \<Longrightarrow> fill kw segs = Inl (KeyError k)"
proof (induction segs)
  case Nil
  then show ?case by simp
next
  case (Cons s segs)
  then show ?case by (cases s) (auto split: if_splits)
qed

lemma substitute_brace_free:
  assumes "list_all plain_segment segs"
    and "list_all (\<lambda>k. list_all (\<lambda>c. \<not> is_brace c) (substitute kw (Var k))) (placeholders segs)"
  shows "list_all (\<lambda>c. \<not> is_brace c) (concat (map (substitute kw) segs))"
  using assms
proof (induction segs)
  case Nil
  then show ?case by simp
next
  case (Cons s segs)
  then show ?case by (cases s) (auto simp: list_all_iff)
qed

text \<open>
  Claim C2, first as stated, at three inputs where every placeholder has an entry. At
  the prompt \<open>{a}\<close> with the entry \<open>a = "{b}"\<close> formatting succeeds and the result
  \<open>{b}\<close> still shows a placeholder. At the prompt \<open>{0}\<close> with an entry for the key
  \<open>0\<close> formatting neither returns nor reports a missing variable: the field is
  positional and \<open>IndexError\<close> passes through. At a prompt without placeholders an
  unused entry named \<open>self\<close> is not ignored: the call raises \<open>TypeError\<close>.
\<close>

theorem format_prompt_leaves_placeholder:
  "[''a'' \<mapsto> ''{b}''] ''a'' = Some ''{b}''
   \<and> format_prompt plain_only (Template_init ''t'' ''d'' ''{a}'' None None None None)
        [''a'' \<mapsto> ''{b}''] = Inr ''{b}''
   \<and> has_placeholder ''{b}''
   \<and> [''0'' \<mapsto> ''x''] ''0'' = Some ''x''
   \<and> format_prompt plain_only (Template_init ''t'' ''d'' ''{0}'' None None None None)
        [''0'' \<mapsto> ''x''] = Inl (IndexError 0)
   \<and> format_prompt plain_only (Template_init ''t'' ''d'' ''a photo'' None None None None)
        [''self'' \<mapsto> ''me'']
       = Inl (TypeError (''Template.format_prompt() got multiple values for argument ''
                           @ quoted ''self''))"
  by code_simp

text \<open>
  Claim C2, amended. For a prompt made of brace-free text and placeholders with plain
  keys, and for every variables mapping without an entry named \<open>self\<close>: when every
  placeholder has an entry, \<open>format_prompt\<close> returns the prompt with every placeholder,
  repeated ones too, replaced by its entry, entries that no placeholder names are
  ignored, and the result has no brace left provided no substituted entry has one; when
  some placeholder has no entry, \<open>format_prompt\<close> fails with the \<open>ValueError\<close> that
  names the first such key.
\<close>

theorem format_prompt_plain:
  assumes "prompt t = template_text segs" and "list_all plain_segment segs"
    and "kw ''self'' = None"
  shows "(list_all (\<lambda>k. kw k \<noteq> None) (placeholders segs) \<longrightarrow>
            format_prompt ext t kw = Inr (concat (map (substitute kw) segs)))
       \<and> (list_all (\<lambda>k. list_all (\<lambda>c. \<not> is_brace c) (substitute kw (Var k)))
            (placeholders segs) \<longrightarrow>
            list_all (\<lambda>c. \<not> is_brace c) (concat (map (substitute kw) segs)))
       \<and> (\<forall>k. find (\<lambda>k. kw k = None) (placeholders segs) = Some k \<longrightarrow>
            format_prompt ext t kw =
              Inl (ValueError (''Missing required template variable: '' @ py_repr k)))"
proof (intro conjI allI impI)
  assume "list_all (\<lambda>k. kw k \<noteq> None) (placeholders segs)"
  then show "format_prompt ext t kw = Inr (concat (map (substitute kw) segs))"
    using assms by (simp add: format_prompt_def str_format_segments fill_present)
next
  assume "list_all (\<lambda>k. list_all (\<lambda>c. \<not> is_brace c) (substitute kw (Var k))) (placeholders segs)"
  with assms(2) show "list_all (\<lambda>c. \<not> is_brace c) (concat (map (substitute kw) segs))"
    by (rule substitute_brace_free)
next
  fix k
  assume "find (\<lambda>k. kw k = None) (placeholders segs) = Some k"
  then show "format_prompt ext t kw =
      Inl (ValueError (''Missing required template variable: '' @ py_repr k))"
    using assms by (simp add: format_prompt_def str_format_segments fill_missing)
qed

theorem format_prompt_plain_witness:
  "format_prompt plain_only
     (Template_init ''t'' ''d'' ''photo of {product}, {product} on white'' None None None None)
     [''product'' \<mapsto> ''a cup'', ''unused'' \<mapsto> ''x''] = Inr ''photo of a cup, a cup on white''
   \<and> list_all (\<lambda>c. \<not> is_brace c) ''photo of a cup, a cup on white''
   \<and> format_prompt plain_only
       (Template_init ''t'' ''d'' ''photo of {product}, {product} on white'' None None None None)
       [''unused'' \<mapsto> ''x'']
       = Inl (ValueError
                (''Missing required template variable: '' @ [CHR 0x27] @ ''product'' @ [CHR 0x27]))"
proof -
  let ?t = "Template_init ''t'' ''d'' ''photo of {product}, {product} on white'' None None None None"
  let ?segs = "[Lit ''photo of '', Var ''product'', Lit '', '', Var ''product'', Lit '' on white'']"
  have p: "prompt ?t = template_text ?segs"
    by (simp add: Template_init_def template_text_def)
  have q: "list_all plain_segment ?segs"
    by (simp add: plain_key_def is_brace_def is_digit_def get_integer_def)
  have r: "py_repr ''product'' = [CHR 0x27] @ ''product'' @ [CHR 0x27]"
    by code_simp
  have s1: "[''product'' \<mapsto> ''a cup'', ''unused'' \<mapsto> ''x''] ''self'' = None"
    by simp
  have s2: "[''unused'' \<mapsto> ''x''] ''self'' = None"
    by simp
  from format_prompt_plain
         [where kw = "[''product'' \<mapsto> ''a cup'', ''unused'' \<mapsto> ''x'']" and ext = plain_only,
          OF p q s1]
       format_prompt_plain [where kw = "[''unused'' \<mapsto> ''x'']" and ext = plain_only, OF p q s2] r
  show ?thesis by (simp add: is_brace_def)
qed

section \<open>Properties of the template store\<close>

lemma map_of_dict_set: "map_of (dict_set d k v) = (map_of d)(k \<mapsto> v)"
  by (induction d) (auto simp: fun_eq_iff)

lemma map_of_dict_del: "map_of (dict_del d k) = (map_of d)(k := None)"
  unfolding dict_del_def by (induction d) (auto simp: fun_eq_iff)

lemma map_of_dict_update: "map_of (dict_update d other) = map_of d ++ map_of (rev other)"
  unfolding dict_update_def
proof (induction other arbitrary: d)
  case Nil
  show ?case by simp
next
  case (Cons kv other)
  obtain k v where kv: "kv = (k, v)" by (cases kv)
  have "map_of (foldl (\<lambda>acc kv. dict_set acc (fst kv) (snd kv)) (dict_set d k v) other)
          = (map_of d)(k \<mapsto> v) ++ map_of (rev other)"
    by (simp only: Cons.IH map_of_dict_set)
  also have "\<dots> = map_of d ++ map_of (rev (kv # other))"
    by (auto simp: fun_eq_iff map_add_def kv split: option.splits)
  finally show ?case by (simp add: kv)
qed

lemma map_of_rev_distinct: "distinct (map fst xs) \<Longrightarrow> map_of (rev xs) = map_of xs"
proof (induction xs)
  case Nil
  show ?case by simp
next
  case (Cons x xs)
  then have "fst x \<notin> dom (map_of xs)"
    by (simp add: dom_map_of_conv_image_fst)
  with Cons show ?case
    by (cases x) (auto simp: fun_eq_iff map_add_def split: option.splits)
qed

text \<open>
  Claim C8. For every store, template, file system and name: after \<open>add_template\<close>,
  \<open>get_template\<close> of the template's name returns that template, whether or not the name
  was there before, and the other names are untouched; \<open>delete_template\<close> of that name
  then returns true and leaves a store in which the name is not found;
  \<open>delete_template\<close> of a name that has no template returns false and changes neither
  the store nor the files.
\<close>

theorem store_add_get_delete:
  "get_template (add_template tm t) (name t) = Some t
   \<and> (\<forall>other. other \<noteq> name t \<longrightarrow> get_template (add_template tm t) other = get_template tm other)
   \<and> fst (delete_template (add_template tm t) fs (name t)) = True
   \<and> get_template (fst (snd (delete_template (add_template tm t) fs (name t)))) (name t) = None
   \<and> (get_template tm nm = None \<longrightarrow> delete_template tm fs nm = (False, tm, fs))"
proof (intro conjI allI impI)
  show "get_template (add_template tm t) (name t) = Some t"
    by (simp add: get_template_def add_template_def dict_get_def map_of_dict_set)
next
  fix other
  assume "other \<noteq> name t"
  then show "get_template (add_template tm t) other = get_template tm other"
    by (simp add: get_template_def add_template_def dict_get_def map_of_dict_set)
next
  have c: "dict_contains (templates (add_template tm t)) (name t)"
    by (simp add: dict_contains_def add_template_def map_of_dict_set)
  then show "fst (delete_template (add_template tm t) fs (name t)) = True"
    by (simp add: delete_template_def Let_def)
  from c show "get_template (fst (snd (delete_template (add_template tm t) fs (name t)))) (name t) = None"
    by (simp add: delete_template_def Let_def get_template_def dict_get_def map_of_dict_del)
next
  assume "get_template tm nm = None"
  then show "delete_template tm fs nm = (False, tm, fs)"
    by (simp add: delete_template_def get_template_def dict_get_def dict_contains_def)
qed

theorem store_add_get_delete_witness:
  "get_template
     (add_template \<lparr>template_dir = ''templates'', templates = []\<rparr>
        (Template_init ''sky'' ''A sky'' ''sky at {time}'' None None None None)) ''sky''
     = Some (Template_init ''sky'' ''A sky'' ''sky at {time}'' None None None None)
   \<and> delete_template \<lparr>template_dir = ''templates'', templates = []\<rparr> [] ''sky''
     = (False, \<lparr>template_dir = ''templates'', templates = []\<rparr>, [])"
  using store_add_get_delete
    [of "\<lparr>template_dir = ''templates'', templates = []\<rparr>"
        "Template_init ''sky'' ''A sky'' ''sky at {time}'' None None None None" "[]" "''sky''"]
  by (simp add: Template_init_def get_template_def dict_get_def)

section \<open>Properties of the generation facade\<close>

lemma merged_params_lookup:
  assumes "distinct (map fst overrides)"
  shows "dict_get
           (if \<not> dict_contains (dict_update (parameters t) overrides) ''negative_prompt''
            then dict_set (dict_update (parameters t) overrides) ''negative_prompt''
                   (PStr (negative_prompt t))
            else dict_update (parameters t) overrides) k
         = merge_spec t overrides k"
  using map_of_rev_distinct [OF assms]
  by (auto simp: dict_get_def dict_contains_def merge_spec_def map_of_dict_set map_of_dict_update
                 map_add_def split: option.splits)

text \<open>
  Claim C7. For every name, variables and overrides: when the store has no template of
  that name, \<open>generate_from_template\<close> fails with the \<open>ValueError\<close> that says the
  template was not found; otherwise it formats the template's prompt with the
  variables, a formatting error being passed on, and calls the generator with the
  formatted prompt and with keyword arguments in which an override wins over the
  template's parameter of the same key, and in which \<open>negative_prompt\<close> is the
  template's stored value exactly when neither the caller nor the template's parameters
  supply one. The overrides are a Python \<open>dict\<close>: their keys are distinct.
\<close>

theorem generate_from_template_merge:
  "(get_template tm nm = None \<longrightarrow>
      generate_from_template generate ext tm nm vars out overrides
        = Inl (ValueError (template_not_found nm)))
   \<and> (\<forall>t. get_template tm nm = Some t \<and> distinct (map fst overrides) \<longrightarrow>
        (\<exists>params. (\<forall>k. dict_get params k = merge_spec t overrides k)
           \<and> generate_from_template generate ext tm nm vars out overrides
               = and_then (format_prompt ext t (case vars of None \<Rightarrow> Map.empty | Some v \<Rightarrow> v))
                   (\<lambda>p. generate p out params)))"
proof (intro conjI allI impI)
  assume "get_template tm nm = None"
  then show "generate_from_template generate ext tm nm vars out overrides
               = Inl (ValueError (template_not_found nm))"
    by (simp add: generate_from_template_def)
next
  fix t
  assume a: "get_template tm nm = Some t \<and> distinct (map fst overrides)"
  let ?params = "if \<not> dict_contains (dict_update (parameters t) overrides) ''negative_prompt''
                 then dict_set (dict_update (parameters t) overrides) ''negative_prompt''
                        (PStr (negative_prompt t))
                 else dict_update (parameters t) overrides"
  from a have "\<forall>k. dict_get ?params k = merge_spec t overrides k"
    using merged_params_lookup [of overrides t] by blast
  moreover from a have "generate_from_template generate ext tm nm vars out overrides
      = and_then (format_prompt ext t (case vars of None \<Rightarrow> Map.empty | Some v \<Rightarrow> v))
          (\<lambda>p. generate p out ?params)"
    by (simp add: generate_from_template_def and_then_def Let_def split: sum.splits)
  ultimately show "\<exists>params. (\<forall>k. dict_get params k = merge_spec t overrides k)
           \<and> generate_from_template generate ext tm nm vars out overrides
               = and_then (format_prompt ext t (case vars of None \<Rightarrow> Map.empty | Some v \<Rightarrow> v))
                   (\<lambda>p. generate p out params)"
    by blast
qed

theorem generate_from_template_merge_witness:
  "generate_from_template (\<lambda>p out params. Inr (p, out, params)) plain_only
     \<lparr>template_dir = ''templates'',
       templates = [(''sky'', Template_init ''sky'' ''A sky'' ''sky at {time}'' (Some ''blurry'') None
                               (Some [(''guidance_scale'', PFloat 7.5)]) None)]\<rparr>
     ''sea'' None None [(''guidance_scale'', PFloat 9)]
     = Inl (ValueError (template_not_found ''sea''))
   \<and> (\<exists>params.
        dict_get params ''guidance_scale'' = Some (PFloat 9)
        \<and> dict_get params ''negative_prompt'' = Some (PStr ''blurry'')
        \<and> generate_from_template (\<lambda>p out params. Inr (p, out, params)) plain_only
            \<lparr>template_dir = ''templates'',
              templates = [(''sky'', Template_init ''sky'' ''A sky'' ''sky at {time}'' (Some ''blurry'') None
                                      (Some [(''guidance_scale'', PFloat 7.5)]) None)]\<rparr>
            ''sky'' (Some [''time'' \<mapsto> ''dawn'']) None [(''guidance_scale'', PFloat 9)]
          = Inr (''sky at dawn'', None, params))"
proof -
  let ?g = "\<lambda>p out params. Inr (p, out, params) :: error + (string \<times> string option \<times> pydict)"
  let ?t = "Template_init ''sky'' ''A sky'' ''sky at {time}'' (Some ''blurry'') None
              (Some [(''guidance_scale'', PFloat 7.5)]) None"
  let ?tm = "\<lparr>template_dir = ''templates'', templates = [(''sky'', ?t)]\<rparr>"
  let ?ov = "[(''guidance_scale'', PFloat 9)]"
  have n: "get_template ?tm ''sea'' = None"
    by (simp add: get_template_def dict_get_def)
  have s: "get_template ?tm ''sky'' = Some ?t \<and> distinct (map fst ?ov)"
    by (simp add: get_template_def dict_get_def)
  have f: "format_prompt plain_only ?t [''time'' \<mapsto> ''dawn''] = Inr ''sky at dawn''"
    by code_simp
  from generate_from_template_merge [of ?tm "''sea''" ?g plain_only None None ?ov] n
  have 1: "generate_from_template ?g plain_only ?tm ''sea'' None None ?ov
             = Inl (ValueError (template_not_found ''sea''))"
    by blast
  from generate_from_template_merge [of ?tm "''sky''" ?g plain_only "Some [''time'' \<mapsto> ''dawn'']" None ?ov] s
  obtain params where p: "\<forall>k. dict_get params k = merge_spec ?t ?ov k"
    and g: "generate_from_template ?g plain_only ?tm ''sky'' (Some [''time'' \<mapsto> ''dawn'']) None ?ov
              = and_then (format_prompt plain_only ?t [''time'' \<mapsto> ''dawn'']) (\<lambda>p. ?g p None params)"
    by auto
  from p have "dict_get params ''guidance_scale'' = Some (PFloat 9)"
    and "dict_get params ''negative_prompt'' = Some (PStr ''blurry'')"
    by (simp_all add: merge_spec_def dict_get_def Template_init_def or_default_def)
  moreover from g f
  have "generate_from_template ?g plain_only ?tm ''sky'' (Some [''time'' \<mapsto> ''dawn'']) None ?ov
          = Inr (''sky at dawn'', None, params)"
    by (simp add: and_then_def)
  ultimately show ?thesis using 1 by blast
qed

section \<open>Properties of the enhancement pipeline\<close>

lemma and_then_Inr: "and_then (Inr v) f = f v"
  by (simp add: and_then_def)

lemma and_then_Inl: "and_then (Inl e) f = Inl e"
  by (simp add: and_then_def)

lemma and_then_assoc: "and_then (and_then m f) g = and_then m (\<lambda>v. and_then (f v) g)"
  by (cases m) (simp_all add: and_then_def)

lemma and_then_return: "and_then m Inr = m"
  by (cases m) (simp_all add: and_then_def)

lemma run_steps_Nil: "run_steps L [] = Inr"
  by (rule ext) simp

lemma run_steps_append:
  "run_steps L (xs @ ys) img = and_then (run_steps L xs img) (run_steps L ys)"
proof (induction xs arbitrary: img)
  case Nil
  show ?case by (simp add: and_then_Inr)
next
  case (Cons s xs)
  have "run_steps L (xs @ ys) = (\<lambda>v. and_then (run_steps L xs v) (run_steps L ys))"
    by (rule ext) (rule Cons.IH)
  then show ?case by (simp add: and_then_assoc)
qed

lemma run_steps_single: "run_steps L [s] img = apply_step L s img"
  by (simp add: run_steps_Nil and_then_return)

lemma run_steps_optional:
  "run_steps L (if b then [s] else []) img = (if b then apply_step L s img else Inr img)"
  by (simp add: run_steps_Nil and_then_return)

text \<open>The guard of the upscale block: a factor above one is never zero.\<close>

lemma run_upscale_block:
  "run_steps L (case uf of Some f \<Rightarrow> if f > 1 then [Upscale f] else [] | None \<Rightarrow> []) img
     = (case uf of
          Some f \<Rightarrow> if f \<noteq> 0 \<and> f > 1 then u_upscale L img f else Inr img
        | None \<Rightarrow> Inr img)"
  by (cases uf) (auto simp: run_steps_Nil and_then_return)

lemma run_steps_append_fun:
  "run_steps L (xs @ ys) = (\<lambda>img. and_then (run_steps L xs img) (run_steps L ys))"
  by (rule ext) (rule run_steps_append)

lemma run_steps_optional_fun:
  "run_steps L (if b then [s] else []) = (\<lambda>img. if b then apply_step L s img else Inr img)"
  by (rule ext) (rule run_steps_optional)

lemma enhance_as_steps:
  "enhance L cfg snk src args =
     and_then (u_load_image L src) (\<lambda>img.
       and_then (run_steps L (enabled_steps cfg args) img)
         (save_output L cfg snk (output_path args)))"
proof (cases "u_load_image L src")
  case (Inl e)
  then show ?thesis by (simp add: enhance_def and_then_Inl)
next
  case (Inr img0)
  show ?thesis
    unfolding enhance_def enabled_steps_def Inr and_then_Inr
    by (cases "denoise args"; cases "sharpen args"; cases "contrast_enhance args";
        cases "color_enhance args"; cases "color_enhance args = Some True";
        cases "cfg_color_enhance cfg = Some True";
        cases "brightness_adjust args"; cases "brightness_adjust args = Some 0")
       (simp_all add: Let_def run_steps_append_fun run_upscale_block
          run_steps_Nil and_then_assoc and_then_Inr and_then_return)
qed

lemma enabled_steps_ordered:
  "sorted_wrt (<) (map step_position (enabled_steps cfg args))"
  unfolding enabled_steps_def
  by (auto simp: sorted_wrt_append split: option.splits)

text \<open>
  Claim C5. For every source, configuration and arguments, \<open>enhance\<close> is the load of
  the image, then the enabled steps run one after the other, each on the output of the
  one before, then the final save; and the enabled steps always stand in the order
  upscale, denoise, colour, contrast, brightness, sharpen.
\<close>

theorem enhance_fixed_order:
  "enhance L cfg snk src args =
     and_then (u_load_image L src) (\<lambda>img.
       and_then (run_steps L (enabled_steps cfg args) img)
         (save_output L cfg snk (output_path args)))
   \<and> sorted_wrt (<) (map step_position (enabled_steps cfg args))"
  by (simp add: enhance_as_steps [symmetric] enabled_steps_ordered)

text \<open>The two percentages that the claims meet: \<open>int(0.5 * 150)\<close> and \<open>int(0.3 * 150)\<close>.\<close>

lemma py_int_small: "\<bar>x\<bar> < 1000 \<Longrightarrow> py_int x = Inr (if 0 \<le> x then \<lfloor>x\<rfloor> else \<lceil>x\<rceil>)"
  by (simp add: py_int_def pow2_def)

lemma percent_of_half: "py_int (float_mul (1 / 2) UNSHARP_MASK_PERCENT_BASE) = Inr 75"
proof -
  have "float_mul (1 / 2) 150 = 75" by code_simp
  then show ?thesis by (simp add: UNSHARP_MASK_PERCENT_BASE_def py_int_small)
qed

lemma literal_03_positive: "\<not> to_double 0.3 \<le> 0"
proof -
  have "to_double 0.3 = 5404319552844595 / 2 ^ 54" by code_simp
  then show ?thesis by simp
qed

lemma percent_of_03: "py_int (float_mul (to_double 0.3) UNSHARP_MASK_PERCENT_BASE) = Inr 45"
proof -
  have "float_mul (to_double 0.3) 150 = 45" by code_simp
  then show ?thesis by (simp add: UNSHARP_MASK_PERCENT_BASE_def py_int_small)
qed

text \<open>
  Claim C3, on the code. With the default configuration, upscaling off
  (\<open>upscale_factor=1\<close>) and denoise, colour, contrast and brightness off, the run with
  \<open>sharpen=True, sharpen_amount=0\<close> does not return the loaded image: the zero is falsy,
  \<open>sharpen_amount or config.get(...)\<close> replaces it by the configured 0.5, and the
  unsharp mask is applied with percent 75. The run with \<open>sharpen=False\<close> returns the
  loaded image.
\<close>

theorem enhance_zero_sharpen_amount_uses_default:
  "enhance L DEFAULT_CONFIG snk (FromImage r)
     (enhance_defaults\<lparr>upscale_factor := Some 1, denoise := False, color_enhance := Some False,
        contrast_enhance := False, sharpen := True, sharpen_amount := Some 0\<rparr>)
     = Inr (unsharp_mask L (image_convert_rgb L r) 2 75 3, snk)
   \<and> enhance L DEFAULT_CONFIG snk (FromImage r)
       (enhance_defaults\<lparr>upscale_factor := Some 1, denoise := False, color_enhance := Some False,
          contrast_enhance := False, sharpen := False, sharpen_amount := Some 0\<rparr>)
     = Inr (image_convert_rgb L r, snk)"
  by (simp add: enhance_def enhance_defaults_def DEFAULT_CONFIG_def u_load_image_def num_or_def
        u_sharpen_def save_output_def and_then_Inr percent_of_half UNSHARP_MASK_RADIUS_def
        UNSHARP_MASK_THRESHOLD_def)

text \<open>
  Claim C4, on the code, on the small imaging library, whose resize treats sizes as
  Pillow does. \<open>_upscale\<close> checks no dimension. For a raster of zero width and zero
  height the target size of an upscale by 2 is the size the raster has, the resize
  returns a copy and \<open>enhance\<close> returns an image. For a raster with one zero dimension
  the library refuses the target size and \<open>enhance\<close> raises the library's error.
\<close>

theorem enhance_upscale_zero_size_returns:
  "enhance demo_imaging DEFAULT_CONFIG []
     (FromImage \<lparr>width = 0, height = 0, mode = ''RGB'', pixels = []\<rparr>)
     (enhance_defaults\<lparr>upscale_factor := Some 2, denoise := False, color_enhance := Some False,
        contrast_enhance := False, sharpen := False\<rparr>)
     = Inr (\<lparr>width = 0, height = 0, mode = ''RGB'', pixels = []\<rparr>, [])
   \<and> enhance demo_imaging DEFAULT_CONFIG []
       (FromImage \<lparr>width = 0, height = 5, mode = ''RGB'', pixels = []\<rparr>)
       (enhance_defaults\<lparr>upscale_factor := Some 2, denoise := False, color_enhance := Some False,
          contrast_enhance := False, sharpen := False\<rparr>)
     = Inl (ValueError ''height and width must be > 0'')"
  by (simp add: enhance_def enhance_defaults_def DEFAULT_CONFIG_def u_load_image_def num_or_def
        u_upscale_def save_output_def and_then_def demo_imaging_def)

text \<open>
  Claim C6, first as stated, on the small imaging library: the source is 0 wide and 5
  high, the scale is 2, the library refuses the target size \<open>(0, 10)\<close> and
  \<open>super_resolution\<close> returns no raster.
\<close>

theorem super_resolution_zero_width_refused:
  "super_resolution demo_imaging DEFAULT_CONFIG []
     (FromImage \<lparr>width = 0, height = 5, mode = ''RGB'', pixels = []\<rparr>) 2 None
     = Inl (ValueError ''height and width must be > 0'')"
  by (simp add: super_resolution_def u_load_image_def u_upscale_def and_then_def demo_imaging_def)

text \<open>
  Claim C6, amended. For every raster of width \<open>w\<close> and height \<open>h\<close>, every scale and
  every configuration for which the library resizes the loaded raster to
  \<open>(w * scale, h * scale)\<close>: \<open>super_resolution\<close> is exactly that resize followed by the
  unsharp mask at the fixed amount 0.3 (percent 45) and the final save; without an
  output path it returns that image, the same under every configuration. With a
  library whose resize returns the size asked for and whose unsharp mask and conversion
  to RGB keep the size, the result is \<open>w * scale\<close> wide and \<open>h * scale\<close> high.
\<close>

theorem super_resolution_two_steps:
  assumes "resize_exact L" and "unsharp_keeps_size L" and "convert_keeps_size L"
    and "image_resize L (image_convert_rgb L r) (int (width r) * scale, int (height r) * scale)
           = Inr up"
  shows "super_resolution L cfg snk (FromImage r) scale out
           = save_output L cfg snk out (unsharp_mask L up 2 45 3)
       \<and> super_resolution L cfg snk (FromImage r) scale None
           = Inr (unsharp_mask L up 2 45 3, snk)
       \<and> super_resolution L cfg' snk (FromImage r) scale None
           = super_resolution L cfg snk (FromImage r) scale None
       \<and> int (width (unsharp_mask L up 2 45 3)) = int (width r) * scale
       \<and> int (height (unsharp_mask L up 2 45 3)) = int (height r) * scale"
proof -
  from assms(3) have size: "width (image_convert_rgb L r) = width r"
    "height (image_convert_rgb L r) = height r"
    by (auto simp: convert_keeps_size_def)
  have two: "super_resolution L c snk (FromImage r) scale p
               = save_output L c snk p (unsharp_mask L up 2 45 3)" for c p
    using assms(4)
    by (simp add: super_resolution_def u_load_image_def and_then_Inr u_upscale_def u_sharpen_def
          size literal_03_positive percent_of_03 UNSHARP_MASK_RADIUS_def
          UNSHARP_MASK_THRESHOLD_def)
  have none: "save_output L c snk None im = Inr (im, snk)" for c im
    by (simp add: save_output_def)
  from assms(1,4) have "int (width up) = int (width r) * scale"
    and "int (height up) = int (height r) * scale"
    by (auto simp: resize_exact_def)
  moreover from assms(2) have "width (unsharp_mask L up 2 45 3) = width up"
    and "height (unsharp_mask L up 2 45 3) = height up"
    by (auto simp: unsharp_keeps_size_def)
  ultimately show ?thesis by (simp add: two none)
qed

lemma demo_imaging_resize_exact: "resize_exact demo_imaging"
  by (auto simp: resize_exact_def demo_imaging_def split: if_splits)

lemma demo_imaging_unsharp_keeps_size: "unsharp_keeps_size demo_imaging"
  by (simp add: unsharp_keeps_size_def demo_imaging_def)

lemma demo_imaging_convert_keeps_size: "convert_keeps_size demo_imaging"
  by (simp add: convert_keeps_size_def demo_imaging_def)

theorem super_resolution_two_steps_witness:
  "super_resolution demo_imaging DEFAULT_CONFIG []
     (FromImage \<lparr>width = 100, height = 100, mode = ''RGB'', pixels = [10, 200]\<rparr>) 3 None
     = Inr (\<lparr>width = 300, height = 300, mode = ''RGB'', pixels = [55, 245]\<rparr>, [])"
proof -
  let ?img = "\<lparr>width = 100, height = 100, mode = ''RGB'', pixels = [10, 200]\<rparr>"
  let ?up = "\<lparr>width = 300, height = 300, mode = ''RGB'', pixels = [10, 200]\<rparr>"
  have 1: "image_resize demo_imaging (image_convert_rgb demo_imaging ?img)
             (int (width ?img) * 3, int (height ?img) * 3) = Inr ?up"
    by (simp add: demo_imaging_def)
  from super_resolution_two_steps
         [OF demo_imaging_resize_exact demo_imaging_unsharp_keeps_size
             demo_imaging_convert_keeps_size 1, of DEFAULT_CONFIG "[]" None DEFAULT_CONFIG]
  have "super_resolution demo_imaging DEFAULT_CONFIG [] (FromImage ?img) 3 None
          = Inr (unsharp_mask demo_imaging ?up 2 45 3, [])"
    by blast
  then show ?thesis
    by (simp add: demo_imaging_def)
qed

text \<open>
  Claim C9, first as stated, on the small imaging library: the input is an RGBA raster,
  brightness is 0.0 and contrast 1.0, and the raster returned is in mode RGB, not the
  input.
\<close>

theorem adjust_lighting_converts_input:
  "adjust_lighting demo_imaging DEFAULT_CONFIG []
     (FromImage \<lparr>width = 2, height = 1, mode = ''RGBA'', pixels = [10, 200]\<rparr>) 0.0 1.0 None
     = Inr (\<lparr>width = 2, height = 1, mode = ''RGB'', pixels = [10, 200]\<rparr>, [])
   \<and> \<lparr>width = 2, height = 1, mode = ''RGB'', pixels = [10, 200]\<rparr>
       \<noteq> \<lparr>width = 2, height = 1, mode = ''RGBA'', pixels = [10, 200]\<rparr>"
  by (simp add: adjust_lighting_def u_load_image_def save_output_def and_then_def
        demo_imaging_def)

text \<open>
  Claim C9, amended. For every source, \<open>adjust_lighting\<close> with brightness 0.0 and
  contrast 1.0 applies neither adjustment: it returns the image exactly as
  \<open>_load_image\<close> delivers it, that is after the conversion to RGB (and saves it when an
  output path is given). For an in-memory raster that this conversion leaves as it is,
  the result is the input raster.
\<close>

theorem adjust_lighting_neutral:
  "adjust_lighting L cfg snk src 0.0 1.0 out
     = and_then (u_load_image L src) (save_output L cfg snk out)
   \<and> adjust_lighting L cfg snk (FromImage r) 0.0 1.0 None = Inr (image_convert_rgb L r, snk)
   \<and> (image_convert_rgb L r = r \<longrightarrow>
        adjust_lighting L cfg snk (FromImage r) 0.0 1.0 None = Inr (r, snk))"
proof (intro conjI)
  show "adjust_lighting L cfg snk src 0.0 1.0 out
          = and_then (u_load_image L src) (save_output L cfg snk out)"
    by (simp add: adjust_lighting_def)
  show "adjust_lighting L cfg snk (FromImage r) 0.0 1.0 None = Inr (image_convert_rgb L r, snk)"
    by (simp add: adjust_lighting_def u_load_image_def save_output_def and_then_def)
  show "image_convert_rgb L r = r \<longrightarrow>
          adjust_lighting L cfg snk (FromImage r) 0.0 1.0 None = Inr (r, snk)"
    by (simp add: adjust_lighting_def u_load_image_def save_output_def and_then_def)
qed

theorem adjust_lighting_neutral_witness:
  "adjust_lighting demo_imaging DEFAULT_CONFIG []
     (FromImage \<lparr>width = 2, height = 1, mode = ''RGB'', pixels = [10, 200]\<rparr>) 0.0 1.0 None
     = Inr (\<lparr>width = 2, height = 1, mode = ''RGB'', pixels = [10, 200]\<rparr>, [])"
proof -
  let ?r = "\<lparr>width = 2, height = 1, mode = ''RGB'', pixels = [10, 200]\<rparr>"
  have c: "image_convert_rgb demo_imaging ?r = ?r"
    by (simp add: demo_imaging_def)
  from adjust_lighting_neutral [of demo_imaging DEFAULT_CONFIG "[]" "FromImage ?r" None ?r] c
  show ?thesis by blast
qed

end
